theory Spec2Isabelle
  imports Main "HOL-Library.Sublist"
begin

section \<open>Data of the App component\<close>

text \<open>
  The component keeps six pieces of state (the \<open>useState\<close> hooks of \<open>App\<close>). The
  spec's WorkflowState is five of them; \<open>isObjectRotationOnly\<close> is the mode checkbox.
  The \<open>error\<close> field is a string: the empty string is "no error" (the markup tests
  \<open>error ? ... : ...\<close>).
\<close>

record GeneratedImage =
  src :: string
  prompt :: string

record App =
  originalImage :: "string option"
  generatedImages :: "GeneratedImage list"
  isObjectRotationOnly :: bool
  isLoading :: bool
  status :: string
  error :: string

definition initialState :: App where
  "initialState =
     \<lparr>originalImage = None, generatedImages = [], isObjectRotationOnly = False,
      isLoading = False, status = [], error = []\<rparr>"

text \<open>JavaScript truthiness of a \<open>string | null\<close>: \<open>null\<close> and the empty string are falsy.\<close>

fun truthy :: "string option \<Rightarrow> bool" where
  "truthy None = False"
| "truthy (Some s) = (s \<noteq> [])"

section \<open>Thrown values and awaited calls\<close>

text \<open>
  What a \<open>catch (err)\<close> can receive: an \<open>Error\<close> object with its message, or any other
  value. An awaited call either rejects with a thrown value or fulfils with a result.
\<close>

datatype thrown = JsError string | NonError

datatype 'a outcome = Throws thrown | Returns 'a

section \<open>The effect log\<close>

text \<open>
  A handler is modelled by the list of effects it performs, in program order: the state
  setters it calls and the asynchronous operations it waits for (with whether the
  operation fulfilled). The state after any prefix of the log is obtained by replaying
  the setters.
\<close>

datatype call =
    ReadAsDataURL
  | GetRotationPrompts string string bool
  | GenerateRotatedImage string string string
  | SetTimeout nat
  | Fetch string
  | GenerateAsync

datatype event =
    SetOriginalImage "string option"
  | SetGeneratedImages "GeneratedImage list"
  | SetIsObjectRotationOnly bool
  | SetIsLoading bool
  | SetStatus string
  | SetError string
  | Await call bool

fun apply_event :: "event \<Rightarrow> App \<Rightarrow> App" where
  "apply_event (SetOriginalImage v) s = s\<lparr>originalImage := v\<rparr>"
| "apply_event (SetGeneratedImages v) s = s\<lparr>generatedImages := v\<rparr>"
| "apply_event (SetIsObjectRotationOnly v) s = s\<lparr>isObjectRotationOnly := v\<rparr>"
| "apply_event (SetIsLoading v) s = s\<lparr>isLoading := v\<rparr>"
| "apply_event (SetStatus v) s = s\<lparr>status := v\<rparr>"
| "apply_event (SetError v) s = s\<lparr>error := v\<rparr>"
| "apply_event (Await c ok) s = s"

fun replay :: "App \<Rightarrow> event list \<Rightarrow> App" where
  "replay s [] = s"
| "replay s (e # es) = replay (apply_event e s) es"

section \<open>Strings\<close>

text \<open>Decimal rendering of a number in a template literal.\<close>

definition digit :: "nat \<Rightarrow> char" where
  "digit n = ''0123456789'' ! (n mod 10)"

function string_of_nat :: "nat \<Rightarrow> string" where
  "string_of_nat n =
     (if n < 10 then [digit n] else string_of_nat (n div 10) @ [digit n])"
  by pat_completeness auto
termination
  by (relation "measure id") auto

declare string_of_nat.simps [simp del]

text \<open>\<open>String.prototype.includes\<close>: the argument occurs as a contiguous substring.\<close>

fun str_includes :: "string \<Rightarrow> string \<Rightarrow> bool" where
  "str_includes [] sub = (sub = [])"
| "str_includes (c # cs) sub = (prefix sub (c # cs) \<or> str_includes cs sub)"

section \<open>services/geminiService\<close>

text \<open>
  The reply of the model to the prompt request, as far as \<open>getRotationPrompts\<close> inspects
  it. \<open>JSON.parse(response.text)\<close> either throws or yields a value; the function then
  tests \<open>result && Array.isArray(result.prompts)\<close>. The three cases of a parsed value
  are: a falsy value, a truthy value whose \<open>prompts\<close> is not an array, and a value whose
  \<open>prompts\<close> is an array (of strings, as the response schema requests and the
  signature \<open>Promise<string[]>\<close> declares).
\<close>

datatype parsed = Falsy | NoPromptsArray | PromptsArray "string list"

datatype text_reply = Unparsable | Json parsed

definition malformed_text :: string where
  "malformed_text = ''Could not get valid rotation prompts from the AI. The response was malformed.''"

definition invalid_instructions_text :: string where
  "invalid_instructions_text =
     ''The AI failed to return valid rotation instructions. Please try a different image.''"

fun getRotationPrompts :: "text_reply outcome \<Rightarrow> string list outcome" where
  "getRotationPrompts (Throws e) = Throws e"
| "getRotationPrompts (Returns Unparsable) = Throws (JsError invalid_instructions_text)"
| "getRotationPrompts (Returns (Json (PromptsArray ps))) =
     (if length ps = 3 then Returns ps else Throws (JsError malformed_text))"
| "getRotationPrompts (Returns (Json Falsy)) = Throws (JsError malformed_text)"
| "getRotationPrompts (Returns (Json NoPromptsArray)) = Throws (JsError malformed_text)"

text \<open>
  A part of the image reply: text, or inline data (MIME type and base64 bytes). The
  reply's \<open>candidates?.[0]?.content?.parts\<close> may be undefined (\<open>None\<close>).
\<close>

datatype part = TextPart string | InlineData string string

fun find_inline :: "part list \<Rightarrow> (string \<times> string) option" where
  "find_inline [] = None"
| "find_inline (TextPart t # ps) = find_inline ps"
| "find_inline (InlineData m d # ps) = Some (m, d)"

definition no_image_text :: string where
  "no_image_text = ''The AI did not return an image. It might not be able to process this request.''"

fun generateRotatedImage :: "part list option outcome \<Rightarrow> string outcome" where
  "generateRotatedImage (Throws e) = Throws e"
| "generateRotatedImage (Returns None) = Throws (JsError no_image_text)"
| "generateRotatedImage (Returns (Some ps)) =
     (case find_inline ps of
        Some (m, d) \<Rightarrow> Returns (''data:'' @ m @ '';base64,'' @ d)
      | None \<Rightarrow> Throws (JsError no_image_text))"

text \<open>
  The replies of the remote model during one run: one to the prompt request, and one to
  the \<open>k\<close>-th image request.
\<close>

record gemini =
  promptsResponse :: "text_reply outcome"
  imageResponse :: "nat \<Rightarrow> part list option outcome"

text \<open>
  What the component sees of the two imported functions during one run: the result of
  \<open>getRotationPrompts\<close> (\<open>None\<close> is a null or undefined result, which \<open>!prompts\<close> tests
  for) and the result of the \<open>k\<close>-th call of \<open>generateRotatedImage\<close>. Any test double is
  such a record; \<open>geminiService\<close> is the one the repository ships.
\<close>

record adapter =
  promptsResult :: "string list option outcome"
  imageResult :: "nat \<Rightarrow> string outcome"

definition geminiService :: "gemini \<Rightarrow> adapter" where
  "geminiService g =
     \<lparr>promptsResult =
        (case getRotationPrompts (promptsResponse g) of
           Throws e \<Rightarrow> Throws e
         | Returns ps \<Rightarrow> Returns (Some ps)),
      imageResult = (\<lambda>k. generateRotatedImage (imageResponse g k))\<rparr>"

section \<open>The handlers of App\<close>

definition resetState_log :: "event list" where
  "resetState_log =
     [SetOriginalImage None, SetGeneratedImages [], SetIsLoading False,
      SetStatus [], SetError []]"

definition resetState :: "App \<Rightarrow> App" where
  "resetState s = replay s resetState_log"

definition quota_text :: string where
  "quota_text = ''Quota exhausted. The free tier for the image model has been used up. Please check your Google AI Studio plan or wait a few hours before trying again.''"

definition unknown_text :: string where
  "unknown_text = ''An unknown error occurred during processing.''"

definition no_angles_text :: string where
  "no_angles_text = ''Could not determine rotation angles. Please try another image.''"

text \<open>The test of the \<open>catch\<close> block of \<open>processImage\<close>, and the message it stores.\<close>

fun quota_signal :: "thrown \<Rightarrow> bool" where
  "quota_signal (JsError m) = (str_includes m ''RESOURCE_EXHAUSTED'' \<or> str_includes m ''429'')"
| "quota_signal NonError = False"

fun error_text :: "thrown \<Rightarrow> string" where
  "error_text (JsError m) = m"
| "error_text NonError = unknown_text"

definition catch_log :: "thrown \<Rightarrow> event list" where
  "catch_log e =
     [SetError (if quota_signal e then quota_text else error_text e), SetStatus ''Failed'']"

definition generating_status :: "nat \<Rightarrow> string" where
  "generating_status i =
     '' '' @ string_of_nat (i + 2) @ ''/4: Generating rotated view '' @ string_of_nat (i + 1)
       @ '' of 3...''"

text \<open>
  The \<open>for\<close> loop of \<open>processImage\<close>, from iteration \<open>i\<close> with the images pushed so far.
  It returns the effects and the value thrown out of the loop, if any. The loop runs only
  after the length test, so \<open>prompts[i]\<close> is in range.
\<close>

function render_loop ::
  "adapter \<Rightarrow> string \<Rightarrow> string \<Rightarrow> string list \<Rightarrow> nat \<Rightarrow> GeneratedImage list
     \<Rightarrow> event list \<times> thrown option" where
  "render_loop ad b64 mime prompts i newImages =
     (if i < 3 then
        (case imageResult ad i of
           Throws e \<Rightarrow>
             ([SetStatus (generating_status i),
               Await (GenerateRotatedImage b64 mime (prompts ! i)) False], Some e)
         | Returns img \<Rightarrow>
             (let pushed = newImages @ [\<lparr>src = img, prompt = prompts ! i\<rparr>];
                  rest = render_loop ad b64 mime prompts (i + 1) pushed
              in ([SetStatus (generating_status i),
                   Await (GenerateRotatedImage b64 mime (prompts ! i)) True,
                   SetGeneratedImages pushed]
                  @ (if i < 2 then [Await (SetTimeout 1000) True] else [])
                  @ fst rest, snd rest)))
      else ([], None))"
  by pat_completeness auto
termination
  by (relation "measure (\<lambda>(ad, b64, mime, prompts, i, newImages). 3 - i)") auto

declare render_loop.simps [simp del]

text \<open>The body of the \<open>try\<close> block: its effects and the value it throws, if any.\<close>

definition try_log ::
  "adapter \<Rightarrow> string \<Rightarrow> string \<Rightarrow> bool \<Rightarrow> event list \<times> thrown option" where
  "try_log ad b64 mime objectOnly =
     (case promptsResult ad of
        Throws e \<Rightarrow>
          ([SetStatus ''1/4: Analyzing camera angle...'',
            Await (GetRotationPrompts b64 mime objectOnly) False], Some e)
      | Returns r \<Rightarrow>
          (let hd_log = [SetStatus ''1/4: Analyzing camera angle...'',
                         Await (GetRotationPrompts b64 mime objectOnly) True]
           in case r of
                None \<Rightarrow> (hd_log, Some (JsError no_angles_text))
              | Some prompts \<Rightarrow>
                  if length prompts < 3 then (hd_log, Some (JsError no_angles_text))
                  else (let loop = render_loop ad b64 mime prompts 0 []
                        in case snd loop of
                             Some e \<Rightarrow> (hd_log @ fst loop, Some e)
                           | None \<Rightarrow>
                               (hd_log @ fst loop @ [SetStatus ''Processing complete!''],
                                None))))"

definition processImage :: "adapter \<Rightarrow> string \<Rightarrow> string \<Rightarrow> bool \<Rightarrow> event list" where
  "processImage ad b64 mime objectOnly =
     (let t = try_log ad b64 mime objectOnly
      in fst t @ (case snd t of None \<Rightarrow> [] | Some e \<Rightarrow> catch_log e)
         @ [SetIsLoading False])"

text \<open>
  The selected file: its MIME type and what the \<open>FileReader\<close> delivers, \<open>None\<close> for a read
  error and otherwise the base64 payload of the data URL (the part after the comma).
\<close>

record upload =
  fileType :: string
  payload :: "string option"

definition handleImageUpload :: "upload option \<Rightarrow> adapter \<Rightarrow> App \<Rightarrow> event list" where
  "handleImageUpload f ad s =
     (case f of
        None \<Rightarrow> []
      | Some u \<Rightarrow>
          resetState_log @ [SetIsLoading True, SetStatus ''Reading image...'']
          @ (case payload u of
               None \<Rightarrow>
                 [Await ReadAsDataURL False,
                  SetError ''Failed to read the image file.'', SetIsLoading False,
                  SetStatus []]
             | Some b64 \<Rightarrow>
                 [Await ReadAsDataURL True,
                  SetOriginalImage (Some (''data:'' @ fileType u @ '';base64,'' @ b64))]
                 @ processImage ad b64 (fileType u) (isObjectRotationOnly s)))"

text \<open>\<open>isFinished\<close>, computed on every render of the component.\<close>

definition isFinished :: "App \<Rightarrow> bool" where
  "isFinished s = (\<not> isLoading s \<and> length (generatedImages s) = 3)"

subsection \<open>Archive export\<close>

text \<open>
  An archive is the list of its entries (name, content) in insertion order; adding a
  file under an existing name replaces the content in place, as JSZip does.
\<close>

type_synonym archive = "(string \<times> string) list"

fun zip_file :: "archive \<Rightarrow> string \<Rightarrow> string \<Rightarrow> archive" where
  "zip_file [] n b = [(n, b)]"
| "zip_file ((k, v) # z) n b = (if k = n then (n, b) # z else (k, v) # zip_file z n b)"

text \<open>
  The browser during one export: whether the JSZip global exists (\<open>new JSZip()\<close> throws
  when the script from the CDN is missing), the blob a \<open>fetch\<close> of a URL delivers
  (\<open>None\<close>: the fetch rejects), and whether \<open>generateAsync\<close> fulfils.
\<close>

record browser =
  jszipLoaded :: bool
  fetchBlob :: "string \<Rightarrow> string option"
  generateAsyncOk :: bool

text \<open>The loop over \<open>generatedImages\<close>, from index \<open>i\<close>; \<open>None\<close> when a fetch rejects.\<close>

fun zip_generated ::
  "browser \<Rightarrow> nat \<Rightarrow> GeneratedImage list \<Rightarrow> archive \<Rightarrow> event list \<times> archive option" where
  "zip_generated br i [] z = ([], Some z)"
| "zip_generated br i (g # gs) z =
     (case fetchBlob br (src g) of
        None \<Rightarrow> ([Await (Fetch (src g)) False], None)
      | Some b \<Rightarrow>
          (let rest = zip_generated br (i + 1) gs
                        (zip_file z (''generated_'' @ string_of_nat (i + 1) @ ''.png'') b)
           in (Await (Fetch (src g)) True # fst rest, snd rest)))"

definition zip_failed_log :: "event list" where
  "zip_failed_log = [SetError ''Failed to create ZIP file.'', SetStatus ''Failed'']"

text \<open>The effects of \<open>handleDownloadZip\<close> and the archive offered for download, if any.\<close>

definition handleDownloadZip :: "browser \<Rightarrow> App \<Rightarrow> event list \<times> archive option" where
  "handleDownloadZip br s =
     (if \<not> truthy (originalImage s) \<or> length (generatedImages s) < 3 then ([], None)
      else if \<not> jszipLoaded br then
        ([SetStatus ''Creating ZIP file...''] @ zip_failed_log, None)
      else
        (let start = [SetStatus ''Creating ZIP file...''];
             url = the (originalImage s)
         in case fetchBlob br url of
              None \<Rightarrow> (start @ [Await (Fetch url) False] @ zip_failed_log, None)
            | Some b \<Rightarrow>
                (let gen = zip_generated br 0 (generatedImages s)
                             (zip_file [] ''original.png'' b)
                 in case snd gen of
                      None \<Rightarrow> (start @ [Await (Fetch url) True] @ fst gen @ zip_failed_log, None)
                    | Some z \<Rightarrow>
                        if generateAsyncOk br then
                          (start @ [Await (Fetch url) True] @ fst gen
                             @ [Await GenerateAsync True, SetStatus ''Download complete!''],
                           Some z)
                        else
                          (start @ [Await (Fetch url) True] @ fst gen
                             @ [Await GenerateAsync False] @ zip_failed_log, None))))"

section \<open>Observing a run\<close>

text \<open>
  The handlers are \<open>async\<close> functions: between two awaits they run to completion, so the
  state can be observed only while a call is pending and after the handler has
  returned. \<open>observe s k log\<close> lists these observations of a log replayed from \<open>s\<close>: the
  state, paired with the number of \<open>generateRotatedImage\<close> calls that have fulfilled so
  far (\<open>k\<close> of them before the log).
\<close>

fun is_render :: "event \<Rightarrow> bool" where
  "is_render (Await (GenerateRotatedImage b64 mime p) ok) = True"
| "is_render e = False"

fun render_fulfilled :: "event \<Rightarrow> bool" where
  "render_fulfilled (Await (GenerateRotatedImage b64 mime p) ok) = ok"
| "render_fulfilled e = False"

fun is_await :: "event \<Rightarrow> bool" where
  "is_await (Await c ok) = True"
| "is_await e = False"

fun observe :: "App \<Rightarrow> nat \<Rightarrow> event list \<Rightarrow> (App \<times> nat) list" where
  "observe s k [] = [(s, k)]"
| "observe s k (e # es) =
     (if is_await e then (s, k) # observe s (if render_fulfilled e then k + 1 else k) es
      else observe (apply_event e s) k es)"

text \<open>
  The render calls and pauses of a log, in order: what a test double of the service and
  of the timer would record.
\<close>

datatype tick = Render | Pause nat

fun schedule :: "event list \<Rightarrow> tick list" where
  "schedule [] = []"
| "schedule (Await (GenerateRotatedImage b64 mime p) ok # es) = Render # schedule es"
| "schedule (Await (SetTimeout ms) ok # es) = Pause ms # schedule es"
| "schedule (e # es) = schedule es"

text \<open>
  A clock for a log. The \<open>k\<close>-th effect of the log takes \<open>d k\<close> milliseconds, whatever
  \<open>d\<close> is, and a \<open>setTimeout\<close> of \<open>ms\<close> takes \<open>ms\<close> milliseconds more: the timer fires no
  earlier than asked. \<open>render_times d k t log\<close> lists, for each render call of the log,
  the time it is issued and the time it settles, for a log that starts at index \<open>k\<close> and
  time \<open>t\<close>.
\<close>

fun duration :: "(nat \<Rightarrow> nat) \<Rightarrow> nat \<Rightarrow> event \<Rightarrow> nat" where
  "duration d k (Await (SetTimeout ms) ok) = ms + d k"
| "duration d k e = d k"

fun render_times :: "(nat \<Rightarrow> nat) \<Rightarrow> nat \<Rightarrow> nat \<Rightarrow> event list \<Rightarrow> (nat \<times> nat) list" where
  "render_times d k t [] = []"
| "render_times d k t (e # es) =
     (if is_render e then (t, t + duration d k e) # render_times d (k + 1) (t + duration d k e) es
      else render_times d (k + 1) (t + duration d k e) es)"

fun spaced :: "(nat \<times> nat) \<Rightarrow> (nat \<times> nat) \<Rightarrow> bool" where
  "spaced (s1, e1) (s2, e2) = (e1 + 1000 \<le> s2)"

section \<open>The states the user can reach\<close>

text \<open>
  The states in which no handler is running, by the controls the markup offers: the
  file input and the mode checkbox are shown while there is no original image and are
  disabled while loading; the download and reset buttons are shown when \<open>isFinished\<close>.
  Each handler runs to its end before the next one starts.
\<close>

inductive reachable :: "App \<Rightarrow> bool" where
  initial: "reachable initialState"
| upload: "reachable s \<Longrightarrow> \<not> truthy (originalImage s) \<Longrightarrow> \<not> isLoading s
     \<Longrightarrow> reachable (replay s (handleImageUpload f ad s))"
| toggle: "reachable s \<Longrightarrow> \<not> truthy (originalImage s) \<Longrightarrow> \<not> isLoading s
     \<Longrightarrow> reachable (apply_event (SetIsObjectRotationOnly b) s)"
| download: "reachable s \<Longrightarrow> isFinished s
     \<Longrightarrow> reachable (replay s (fst (handleDownloadZip br s)))"
| reset: "reachable s \<Longrightarrow> isFinished s \<Longrightarrow> reachable (resetState s)"

section \<open>Test doubles\<close>

text \<open>Concrete files, services and browsers, for the examples below.\<close>

definition png_file :: upload where
  "png_file = \<lparr>fileType = ''image/png'', payload = Some ''AAAA''\<rparr>"

definition good_adapter :: adapter where
  "good_adapter =
     \<lparr>promptsResult = Returns (Some [''low angle'', ''high angle'', ''dutch tilt'']),
      imageResult = (\<lambda>k. Returns ''data:image/png;base64,BBBB'')\<rparr>"

definition good_browser :: browser where
  "good_browser = \<lparr>jszipLoaded = True, fetchBlob = (\<lambda>u. Some u), generateAsyncOk = True\<rparr>"

definition failing_browser :: browser where
  "failing_browser = \<lparr>jszipLoaded = True, fetchBlob = (\<lambda>u. Some u), generateAsyncOk = False\<rparr>"

definition finished_state :: App where
  "finished_state = replay initialState (handleImageUpload (Some png_file) good_adapter initialState)"

definition export_failed_state :: App where
  "export_failed_state =
     replay finished_state (fst (handleDownloadZip failing_browser finished_state))"

definition export_retried_state :: App where
  "export_retried_state =
     replay export_failed_state (fst (handleDownloadZip good_browser export_failed_state))"

definition quota_adapter :: adapter where
  "quota_adapter =
     \<lparr>promptsResult = Returns (Some [''low angle'', ''high angle'', ''dutch tilt'']),
      imageResult = (\<lambda>k. if k = 1 then Throws (JsError ''got status: 429 RESOURCE_EXHAUSTED'')
                         else Returns ''data:image/png;base64,BBBB'')\<rparr>"

definition silent_adapter :: adapter where
  "silent_adapter =
     \<lparr>promptsResult = Returns (Some [''low angle'', ''high angle'', ''dutch tilt'']),
      imageResult = (\<lambda>k. Throws (JsError []))\<rparr>"

definition two_prompts_adapter :: adapter where
  "two_prompts_adapter =
     \<lparr>promptsResult = Returns (Some [''low angle'', ''high angle'']),
      imageResult = (\<lambda>k. Returns ''data:image/png;base64,BBBB'')\<rparr>"

definition blank_prompts_gemini :: gemini where
  "blank_prompts_gemini =
     \<lparr>promptsResponse = Returns (Json (PromptsArray [[], [], []])),
      imageResponse = (\<lambda>k. Returns (Some [InlineData ''image/png'' ''BBBB'']))\<rparr>"

definition quota_gemini :: gemini where
  "quota_gemini =
     \<lparr>promptsResponse =
        Returns (Json (PromptsArray [''low angle'', ''high angle'', ''dutch tilt''])),
      imageResponse = (\<lambda>k. if k = 1 then Throws (JsError ''got status: 429 Too Many Requests'')
                           else Returns (Some [InlineData ''image/png'' ''BBBB'']))\<rparr>"

definition quota_worded_adapter :: adapter where
  "quota_worded_adapter =
     \<lparr>promptsResult = Throws (JsError ''Quota exhausted. The free tier for the image model has been used up. Please check your Google AI Studio plan or wait a few hours before trying again.''),
      imageResult = (\<lambda>k. Returns ''data:image/png;base64,BBBB'')\<rparr>"

definition nonerror_adapter :: adapter where
  "nonerror_adapter =
     \<lparr>promptsResult = Throws NonError,
      imageResult = (\<lambda>k. Returns ''data:image/png;base64,BBBB'')\<rparr>"

section \<open>The shapes of a run\<close>

text \<open>The first two effects of \<open>processImage\<close>; \<open>ok\<close> tells whether the prompt call fulfilled.\<close>

definition head_log :: "string \<Rightarrow> string \<Rightarrow> bool \<Rightarrow> bool \<Rightarrow> event list" where
  "head_log b64 mime oo ok =
     [SetStatus ''1/4: Analyzing camera angle...'', Await (GetRotationPrompts b64 mime oo) ok]"

lemma string_of_nat_small: "n < 10 \<Longrightarrow> string_of_nat n = [digit n]"
  by (simp add: string_of_nat.simps)

lemma replay_append: "replay s (xs @ ys) = replay (replay s xs) ys"
  by (induction xs arbitrary: s) auto

lemma loop_end: "render_loop ad b64 mime ps (Suc (Suc (Suc 0))) acc = ([], None)"
  by (simp add: render_loop.simps)

lemma loop_throws:
  "i < 3 \<Longrightarrow> imageResult ad i = Throws e \<Longrightarrow>
   render_loop ad b64 mime ps i acc =
     ([SetStatus (generating_status i),
       Await (GenerateRotatedImage b64 mime (ps ! i)) False], Some e)"
  by (subst render_loop.simps) simp

lemma loop_returns:
  "i < 3 \<Longrightarrow> imageResult ad i = Returns img \<Longrightarrow>
   render_loop ad b64 mime ps i acc =
     ([SetStatus (generating_status i),
       Await (GenerateRotatedImage b64 mime (ps ! i)) True,
       SetGeneratedImages (acc @ [\<lparr>src = img, prompt = ps ! i\<rparr>])]
      @ (if i < 2 then [Await (SetTimeout 1000) True] else [])
      @ fst (render_loop ad b64 mime ps (i + 1) (acc @ [\<lparr>src = img, prompt = ps ! i\<rparr>])),
      snd (render_loop ad b64 mime ps (i + 1) (acc @ [\<lparr>src = img, prompt = ps ! i\<rparr>])))"
  by (subst render_loop.simps) (simp add: Let_def)

lemma try_log_cases [case_names prompts_rejected too_few render0_rejected render1_rejected
    render2_rejected completed]:
  obtains
    e where "promptsResult ad = Throws e"
      "try_log ad b64 mime oo = (head_log b64 mime oo False, Some e)"
  | "promptsResult ad = Returns None
       \<or> (\<exists>ps. promptsResult ad = Returns (Some ps) \<and> length ps < 3)"
      "try_log ad b64 mime oo = (head_log b64 mime oo True, Some (JsError no_angles_text))"
  | ps e where "promptsResult ad = Returns (Some ps)" "3 \<le> length ps"
      "imageResult ad 0 = Throws e"
      "try_log ad b64 mime oo =
         (head_log b64 mime oo True
          @ [SetStatus (generating_status 0),
             Await (GenerateRotatedImage b64 mime (ps ! 0)) False], Some e)"
  | ps a0 e where "promptsResult ad = Returns (Some ps)" "3 \<le> length ps"
      "imageResult ad 0 = Returns a0" "imageResult ad 1 = Throws e"
      "try_log ad b64 mime oo =
         (head_log b64 mime oo True
          @ [SetStatus (generating_status 0),
             Await (GenerateRotatedImage b64 mime (ps ! 0)) True,
             SetGeneratedImages [\<lparr>src = a0, prompt = ps ! 0\<rparr>],
             Await (SetTimeout 1000) True,
             SetStatus (generating_status 1),
             Await (GenerateRotatedImage b64 mime (ps ! 1)) False], Some e)"
  | ps a0 a1 e where "promptsResult ad = Returns (Some ps)" "3 \<le> length ps"
      "imageResult ad 0 = Returns a0" "imageResult ad 1 = Returns a1"
      "imageResult ad 2 = Throws e"
      "try_log ad b64 mime oo =
         (head_log b64 mime oo True
          @ [SetStatus (generating_status 0),
             Await (GenerateRotatedImage b64 mime (ps ! 0)) True,
             SetGeneratedImages [\<lparr>src = a0, prompt = ps ! 0\<rparr>],
             Await (SetTimeout 1000) True,
             SetStatus (generating_status 1),
             Await (GenerateRotatedImage b64 mime (ps ! 1)) True,
             SetGeneratedImages
               [\<lparr>src = a0, prompt = ps ! 0\<rparr>, \<lparr>src = a1, prompt = ps ! 1\<rparr>],
             Await (SetTimeout 1000) True,
             SetStatus (generating_status 2),
             Await (GenerateRotatedImage b64 mime (ps ! 2)) False], Some e)"
  | ps a0 a1 a2 where "promptsResult ad = Returns (Some ps)" "3 \<le> length ps"
      "imageResult ad 0 = Returns a0" "imageResult ad 1 = Returns a1"
      "imageResult ad 2 = Returns a2"
      "try_log ad b64 mime oo =
         (head_log b64 mime oo True
          @ [SetStatus (generating_status 0),
             Await (GenerateRotatedImage b64 mime (ps ! 0)) True,
             SetGeneratedImages [\<lparr>src = a0, prompt = ps ! 0\<rparr>],
             Await (SetTimeout 1000) True,
             SetStatus (generating_status 1),
             Await (GenerateRotatedImage b64 mime (ps ! 1)) True,
             SetGeneratedImages
               [\<lparr>src = a0, prompt = ps ! 0\<rparr>, \<lparr>src = a1, prompt = ps ! 1\<rparr>],
             Await (SetTimeout 1000) True,
             SetStatus (generating_status 2),
             Await (GenerateRotatedImage b64 mime (ps ! 2)) True,
             SetGeneratedImages
               [\<lparr>src = a0, prompt = ps ! 0\<rparr>, \<lparr>src = a1, prompt = ps ! 1\<rparr>,
                \<lparr>src = a2, prompt = ps ! 2\<rparr>],
             SetStatus ''Processing complete!''], None)"
proof (cases "promptsResult ad")
  case (Throws e)
  then have "try_log ad b64 mime oo = (head_log b64 mime oo False, Some e)"
    by (simp add: try_log_def head_log_def numeral_2_eq_2)
  with Throws show ?thesis by (rule that(1))
next
  case (Returns r)
  show ?thesis
  proof (cases r)
    case None
    with Returns have "try_log ad b64 mime oo
        = (head_log b64 mime oo True, Some (JsError no_angles_text))"
      by (simp add: try_log_def head_log_def numeral_2_eq_2)
    with Returns None show ?thesis by (intro that(2)) auto
  next
    case (Some ps)
    show ?thesis
    proof (cases "length ps < 3")
      case True
      with Returns Some have "try_log ad b64 mime oo
          = (head_log b64 mime oo True, Some (JsError no_angles_text))"
        by (simp add: try_log_def head_log_def numeral_2_eq_2)
      with Returns Some True show ?thesis by (intro that(2)) auto
    next
      case False
      then have len: "3 \<le> length ps" by simp
      have pr: "promptsResult ad = Returns (Some ps)" using Returns Some by simp
      show ?thesis
      proof (cases "imageResult ad 0")
        case (Throws e)
        have "try_log ad b64 mime oo =
          (head_log b64 mime oo True
          @ [SetStatus (generating_status 0),
             Await (GenerateRotatedImage b64 mime (ps ! 0)) False], Some e)"
          using pr len loop_throws[OF _ Throws, of b64 mime ps "[]"]
          by (simp add: try_log_def head_log_def numeral_2_eq_2)
        with pr len Throws show ?thesis by (rule that(3))
      next
        case r0: (Returns a0)
        note l0 = loop_returns[OF _ r0, of b64 mime ps "[]"]
        show ?thesis
        proof (cases "imageResult ad 1")
          case (Throws e)
          note l1 = loop_throws[OF _ Throws, of b64 mime ps "[\<lparr>src = a0, prompt = ps ! 0\<rparr>]"]
          have "try_log ad b64 mime oo =
         (head_log b64 mime oo True
          @ [SetStatus (generating_status 0),
             Await (GenerateRotatedImage b64 mime (ps ! 0)) True,
             SetGeneratedImages [\<lparr>src = a0, prompt = ps ! 0\<rparr>],
             Await (SetTimeout 1000) True,
             SetStatus (generating_status 1),
             Await (GenerateRotatedImage b64 mime (ps ! 1)) False], Some e)"
            using pr len l0 l1 by (simp add: try_log_def head_log_def numeral_2_eq_2)
          with pr len r0 Throws show ?thesis by (rule that(4))
        next
          case r1: (Returns a1)
          note l1 = loop_returns[OF _ r1, of b64 mime ps "[\<lparr>src = a0, prompt = ps ! 0\<rparr>]"]
          show ?thesis
          proof (cases "imageResult ad 2")
            case (Throws e)
            note l2 = loop_throws[OF _ Throws, of b64 mime ps
                "[\<lparr>src = a0, prompt = ps ! 0\<rparr>, \<lparr>src = a1, prompt = ps ! 1\<rparr>]"]
            have "try_log ad b64 mime oo =
         (head_log b64 mime oo True
          @ [SetStatus (generating_status 0),
             Await (GenerateRotatedImage b64 mime (ps ! 0)) True,
             SetGeneratedImages [\<lparr>src = a0, prompt = ps ! 0\<rparr>],
             Await (SetTimeout 1000) True,
             SetStatus (generating_status 1),
             Await (GenerateRotatedImage b64 mime (ps ! 1)) True,
             SetGeneratedImages
               [\<lparr>src = a0, prompt = ps ! 0\<rparr>, \<lparr>src = a1, prompt = ps ! 1\<rparr>],
             Await (SetTimeout 1000) True,
             SetStatus (generating_status 2),
             Await (GenerateRotatedImage b64 mime (ps ! 2)) False], Some e)"
              using pr len l0 l1 l2 by (simp add: try_log_def head_log_def numeral_2_eq_2)
            with pr len r0 r1 Throws show ?thesis by (rule that(5))
          next
            case r2: (Returns a2)
            note l2 = loop_returns[OF _ r2, of b64 mime ps
                "[\<lparr>src = a0, prompt = ps ! 0\<rparr>, \<lparr>src = a1, prompt = ps ! 1\<rparr>]"]
            have "try_log ad b64 mime oo =
         (head_log b64 mime oo True
          @ [SetStatus (generating_status 0),
             Await (GenerateRotatedImage b64 mime (ps ! 0)) True,
             SetGeneratedImages [\<lparr>src = a0, prompt = ps ! 0\<rparr>],
             Await (SetTimeout 1000) True,
             SetStatus (generating_status 1),
             Await (GenerateRotatedImage b64 mime (ps ! 1)) True,
             SetGeneratedImages
               [\<lparr>src = a0, prompt = ps ! 0\<rparr>, \<lparr>src = a1, prompt = ps ! 1\<rparr>],
             Await (SetTimeout 1000) True,
             SetStatus (generating_status 2),
             Await (GenerateRotatedImage b64 mime (ps ! 2)) True,
             SetGeneratedImages
               [\<lparr>src = a0, prompt = ps ! 0\<rparr>, \<lparr>src = a1, prompt = ps ! 1\<rparr>,
                \<lparr>src = a2, prompt = ps ! 2\<rparr>],
             SetStatus ''Processing complete!''], None)"
              using pr len l0 l1 l2 by (simp add: try_log_def head_log_def loop_end numeral_2_eq_2 numeral_3_eq_3)
            with pr len r0 r1 r2 show ?thesis by (rule that(6))
          qed
        qed
      qed
    qed
  qed
qed

lemma str_includes_iff: "str_includes s sub \<longleftrightarrow> (\<exists>pre post. s = pre @ sub @ post)"
proof (induction s)
  case Nil
  then show ?case by auto
next
  case (Cons c cs)
  show ?case
  proof
    assume "str_includes (c # cs) sub"
    then consider "prefix sub (c # cs)" | "str_includes cs sub" by auto
    then show "\<exists>pre post. c # cs = pre @ sub @ post"
    proof cases
      case 1
      then obtain post where "c # cs = sub @ post" by (auto simp: prefix_def)
      then have "c # cs = [] @ sub @ post" by simp
      then show ?thesis by blast
    next
      case 2
      with Cons.IH obtain pre post where "cs = pre @ sub @ post" by blast
      then have "c # cs = (c # pre) @ sub @ post" by simp
      then show ?thesis by blast
    qed
  next
    assume "\<exists>pre post. c # cs = pre @ sub @ post"
    then obtain pre post where eq: "c # cs = pre @ sub @ post" by blast
    show "str_includes (c # cs) sub"
    proof (cases pre)
      case Nil
      with eq have "prefix sub (c # cs)" by (simp add: prefix_def)
      then show ?thesis by simp
    next
      case (Cons p pre')
      with eq have "cs = pre' @ sub @ post" by simp
      with Cons.IH have "str_includes cs sub" by blast
      then show ?thesis by simp
    qed
  qed
qed

lemma upload_log:
  "payload u = Some b64 \<Longrightarrow>
   handleImageUpload (Some u) ad s =
     resetState_log @ [SetIsLoading True, SetStatus ''Reading image...'',
       Await ReadAsDataURL True,
       SetOriginalImage (Some (''data:'' @ fileType u @ '';base64,'' @ b64))]
     @ fst (try_log ad b64 (fileType u) (isObjectRotationOnly s))
     @ (case snd (try_log ad b64 (fileType u) (isObjectRotationOnly s)) of
          None \<Rightarrow> [] | Some e \<Rightarrow> catch_log e)
     @ [SetIsLoading False]"
  by (simp add: handleImageUpload_def processImage_def Let_def)

section \<open>Reset\<close>

text \<open>
  C9. Reset, from any state at all, gives the empty initial workflow state: no original
  image, no generated images, not loading, empty status, no error. Only the mode
  checkbox, which is not part of the workflow state, keeps its value.
\<close>

theorem resetState_initial:
  "resetState s = initialState\<lparr>isObjectRotationOnly := isObjectRotationOnly s\<rparr>
   \<and> originalImage (resetState s) = originalImage initialState
   \<and> generatedImages (resetState s) = generatedImages initialState
   \<and> isLoading (resetState s) = isLoading initialState
   \<and> status (resetState s) = status initialState
   \<and> error (resetState s) = error initialState
   \<and> originalImage (resetState s) = None \<and> generatedImages (resetState s) = []
   \<and> \<not> isLoading (resetState s) \<and> status (resetState s) = [] \<and> error (resetState s) = []"
  by (simp add: resetState_def resetState_log_def initialState_def)

section \<open>The generated images during a run\<close>

text \<open>
  C8. During a run, started from any state by the upload of a file, and at its end: at
  every observation the number of generated images equals the number of render calls
  that have fulfilled so far and is at most 3; and from each observation to the next the
  list of generated images only grows at its end (the earlier list is a prefix of the
  later one), so entries are never reordered or removed.
\<close>

theorem generatedImages_count:
  "list_all (\<lambda>(st, k). length (generatedImages st) = k \<and> k \<le> 3)
     (observe s 0 (handleImageUpload (Some u) ad s))
   \<and> successively (\<lambda>a b. prefix (generatedImages (fst a)) (generatedImages (fst b)))
     (observe s 0 (handleImageUpload (Some u) ad s))"
proof (cases "payload u")
  case None
  then show ?thesis
    by (simp add: handleImageUpload_def resetState_log_def)
next
  case (Some b64)
  show ?thesis
    by (cases rule: try_log_cases[of ad b64 "fileType u" "isObjectRotationOnly s"])
       (simp_all add: Some handleImageUpload_def resetState_log_def processImage_def
          head_log_def catch_log_def)
qed

section \<open>Archive export\<close>

text \<open>
  C10. When the export is invoked while there is no original image or there are fewer
  than 3 generated images, it returns at once: it performs no effect (so it sets no
  error and no status), it produces no archive, and the state is unchanged.
\<close>

theorem download_guard:
  "originalImage s = None \<or> length (generatedImages s) < 3 \<Longrightarrow>
   handleDownloadZip br s = ([], None) \<and> replay s (fst (handleDownloadZip br s)) = s"
  by (auto simp: handleDownloadZip_def)

theorem download_guard_witness:
  "originalImage initialState = None
   \<and> handleDownloadZip good_browser initialState = ([], None)
   \<and> replay initialState (fst (handleDownloadZip good_browser initialState)) = initialState"
proof -
  have h: "originalImage initialState = None \<or> length (generatedImages initialState) < 3"
    by (simp add: initialState_def)
  have "originalImage initialState = None" by (simp add: initialState_def)
  with download_guard[OF h, of good_browser] show ?thesis by blast
qed

section \<open>Failures of a run\<close>

lemma quota_text_nonempty: "quota_text \<noteq> []" by (simp add: quota_text_def)
lemma unknown_text_nonempty: "unknown_text \<noteq> []" by (simp add: unknown_text_def)

lemma stored_error_empty_iff:
  "(if quota_signal e then quota_text else error_text e) = [] \<longleftrightarrow> e = JsError []"
  by (cases e) (auto simp: quota_text_nonempty unknown_text_nonempty)

lemma malformed_no_quota: "\<not> quota_signal (JsError malformed_text)"
  by code_simp

lemma no_angles_no_quota: "\<not> quota_signal (JsError no_angles_text)"
  by code_simp

text \<open>What a failing run throws into the \<open>catch\<close> block, and what the block stores.\<close>

lemma thrown_value:
  assumes "promptsResult ad = Throws e
       \<or> (\<exists>ps i. promptsResult ad = Returns (Some ps) \<and> 3 \<le> length ps \<and> i < 3
             \<and> (\<forall>j<i. \<exists>a. imageResult ad j = Returns a) \<and> imageResult ad i = Throws e)
       \<or> ((promptsResult ad = Returns None
             \<or> (\<exists>ps. promptsResult ad = Returns (Some ps) \<and> length ps < 3))
            \<and> e = JsError ''Could not determine rotation angles. Please try another image.'')"
  shows "snd (try_log ad b64 mime oo) = Some e"
  using assms
proof (elim disjE exE conjE)
  assume "promptsResult ad = Throws e"
  then show ?thesis by (simp add: try_log_def)
next
  fix ps i
  assume pr: "promptsResult ad = Returns (Some ps)" and len: "3 \<le> length ps"
    and i: "i < 3" and before: "\<forall>j<i. \<exists>a. imageResult ad j = Returns a"
    and th: "imageResult ad i = Throws e"
  from i consider "i = 0" | "i = 1" | "i = 2" by linarith
  then show ?thesis
  proof cases
    case 1
    with pr len th show ?thesis
      by (cases rule: try_log_cases[of ad b64 mime oo]) simp_all
  next
    case 2
    have "(0::nat) < 1" by simp
    with 2 before obtain a0 where "imageResult ad 0 = Returns a0" by blast
    with 2 pr len th show ?thesis
      by (cases rule: try_log_cases[of ad b64 mime oo]) simp_all
  next
    case 3
    have "(0::nat) < 2" and "(1::nat) < 2" by simp_all
    with 3 before obtain a0 a1 where r0: "imageResult ad 0 = Returns a0"
      and r1: "imageResult ad 1 = Returns a1" by blast
    from 3 r0 r1 pr len th show ?thesis
      by (cases rule: try_log_cases[of ad b64 mime oo]) simp_all
  qed
next
  assume "promptsResult ad = Returns None"
    and "e = JsError ''Could not determine rotation angles. Please try another image.''"
  then show ?thesis by (simp add: try_log_def no_angles_text_def)
next
  fix ps
  assume "promptsResult ad = Returns (Some ps)" "length ps < 3"
    and "e = JsError ''Could not determine rotation angles. Please try another image.''"
  then show ?thesis by (simp add: try_log_def no_angles_text_def)
qed

lemma stored_error:
  "snd (try_log ad b64 (fileType u) (isObjectRotationOnly s)) = Some e \<Longrightarrow>
   payload u = Some b64 \<Longrightarrow>
   error (replay s (handleImageUpload (Some u) ad s))
     = (if quota_signal e then quota_text else error_text e)"
  by (simp add: upload_log catch_log_def replay_append)

text \<open>
  C6, as amended. A run fails when the prompt call rejects, when a render call rejects
  after the calls before it fulfilled, or when fewer than three prompts arrive. If the
  thrown value is an \<open>Error\<close> whose message contains \<open>RESOURCE_EXHAUSTED\<close> or \<open>429\<close>, the
  error shown is the quota message, which tells the user to check the plan or to wait.
  If it is an \<open>Error\<close> whose message contains neither, the error shown is that message,
  word for word. If it is not an \<open>Error\<close>, the error shown is a fixed text. So the quota
  message is shown exactly for the two signals and for an \<open>Error\<close> that itself carries
  the text of the quota message.
\<close>

theorem error_classification:
  assumes "payload u = Some b64"
    and "promptsResult ad = Throws e
       \<or> (\<exists>ps i. promptsResult ad = Returns (Some ps) \<and> 3 \<le> length ps \<and> i < 3
             \<and> (\<forall>j<i. \<exists>a. imageResult ad j = Returns a) \<and> imageResult ad i = Throws e)
       \<or> ((promptsResult ad = Returns None
             \<or> (\<exists>ps. promptsResult ad = Returns (Some ps) \<and> length ps < 3))
            \<and> e = JsError ''Could not determine rotation angles. Please try another image.'')"
  shows "(\<forall>m. e = JsError m
            \<and> ((\<exists>pre post. m = pre @ ''RESOURCE_EXHAUSTED'' @ post)
                 \<or> (\<exists>pre post. m = pre @ ''429'' @ post))
          \<longrightarrow> error (replay s (handleImageUpload (Some u) ad s)) = ''Quota exhausted. The free tier for the image model has been used up. Please check your Google AI Studio plan or wait a few hours before trying again.'')
       \<and> (\<forall>m. e = JsError m
            \<and> \<not> (\<exists>pre post. m = pre @ ''RESOURCE_EXHAUSTED'' @ post)
            \<and> \<not> (\<exists>pre post. m = pre @ ''429'' @ post)
          \<longrightarrow> error (replay s (handleImageUpload (Some u) ad s)) = m)
       \<and> (e = NonError
          \<longrightarrow> error (replay s (handleImageUpload (Some u) ad s))
                = ''An unknown error occurred during processing.'')
       \<and> (error (replay s (handleImageUpload (Some u) ad s)) = ''Quota exhausted. The free tier for the image model has been used up. Please check your Google AI Studio plan or wait a few hours before trying again.''
          \<longleftrightarrow> (\<exists>m. e = JsError m
                 \<and> ((\<exists>pre post. m = pre @ ''RESOURCE_EXHAUSTED'' @ post)
                      \<or> (\<exists>pre post. m = pre @ ''429'' @ post)
                      \<or> m = ''Quota exhausted. The free tier for the image model has been used up. Please check your Google AI Studio plan or wait a few hours before trying again.'')))"
proof -
  have st: "error (replay s (handleImageUpload (Some u) ad s))
          = (if quota_signal e then quota_text else error_text e)"
    using thrown_value[OF assms(2)] assms(1) by (rule stored_error)
  have q: "quota_text = ''Quota exhausted. The free tier for the image model has been used up. Please check your Google AI Studio plan or wait a few hours before trying again.''"
    by (simp add: quota_text_def)
  have k: "unknown_text = ''An unknown error occurred during processing.''"
    by (simp add: unknown_text_def)
  have kq: "unknown_text \<noteq> quota_text" by (simp add: unknown_text_def quota_text_def)
  show ?thesis
  proof (cases e)
    case (JsError m)
    have sig: "quota_signal e \<longleftrightarrow> (\<exists>pre post. m = pre @ ''RESOURCE_EXHAUSTED'' @ post)
                 \<or> (\<exists>pre post. m = pre @ ''429'' @ post)"
      using JsError by (simp add: str_includes_iff)
    show ?thesis
      unfolding st q[symmetric] using JsError sig by auto
  next
    case NonError
    then show ?thesis
      unfolding st q[symmetric] using k kq by auto
  qed
qed

text \<open>
  With the shipped service: the second render request is refused with a rate-limit
  status.
\<close>

theorem error_classification_witness:
  "error (replay initialState
            (handleImageUpload (Some png_file) (geminiService quota_gemini) initialState))
     = ''Quota exhausted. The free tier for the image model has been used up. Please check your Google AI Studio plan or wait a few hours before trying again.''"
proof -
  have p: "payload png_file = Some ''AAAA''" by (simp add: png_file_def)
  have r0: "\<forall>j<1::nat. \<exists>a. imageResult (geminiService quota_gemini) j = Returns a"
    by (simp add: geminiService_def quota_gemini_def)
  have h: "promptsResult (geminiService quota_gemini)
             = Throws (JsError ''got status: 429 Too Many Requests'')
       \<or> (\<exists>ps i. promptsResult (geminiService quota_gemini) = Returns (Some ps)
             \<and> 3 \<le> length ps \<and> i < 3
             \<and> (\<forall>j<i. \<exists>a. imageResult (geminiService quota_gemini) j = Returns a)
             \<and> imageResult (geminiService quota_gemini) i
                 = Throws (JsError ''got status: 429 Too Many Requests''))
       \<or> ((promptsResult (geminiService quota_gemini) = Returns None
             \<or> (\<exists>ps. promptsResult (geminiService quota_gemini) = Returns (Some ps)
                   \<and> length ps < 3))
            \<and> JsError ''got status: 429 Too Many Requests''
                = JsError ''Could not determine rotation angles. Please try another image.'')"
    apply (rule disjI2, rule disjI1)
    apply (rule exI[of _ "[''low angle'', ''high angle'', ''dutch tilt'']"], rule exI[of _ 1])
    using r0 by (simp add: geminiService_def quota_gemini_def)
  have c: "\<exists>pre post. ''got status: 429 Too Many Requests'' = pre @ ''429'' @ post"
  proof -
    have "str_includes ''got status: 429 Too Many Requests'' ''429''" by code_simp
    then show ?thesis by (simp only: str_includes_iff)
  qed
  from error_classification[OF p h, of initialState] c show ?thesis by blast
qed

text \<open>
  C6 as stated fails twice. An \<open>Error\<close> that carries the text of the quota message,
  without either signal, is shown as the quota message; and a thrown value that is not
  an \<open>Error\<close> is shown as a fixed text that is not derived from it.
\<close>

theorem error_text_counterexample:
  "promptsResult quota_worded_adapter = Throws (JsError ''Quota exhausted. The free tier for the image model has been used up. Please check your Google AI Studio plan or wait a few hours before trying again.'')
   \<and> \<not> str_includes ''Quota exhausted. The free tier for the image model has been used up. Please check your Google AI Studio plan or wait a few hours before trying again.'' ''RESOURCE_EXHAUSTED''
   \<and> \<not> str_includes ''Quota exhausted. The free tier for the image model has been used up. Please check your Google AI Studio plan or wait a few hours before trying again.'' ''429''
   \<and> error (replay initialState
              (handleImageUpload (Some png_file) quota_worded_adapter initialState))
       = ''Quota exhausted. The free tier for the image model has been used up. Please check your Google AI Studio plan or wait a few hours before trying again.''
   \<and> promptsResult nonerror_adapter = Throws NonError
   \<and> error (replay initialState
              (handleImageUpload (Some png_file) nonerror_adapter initialState))
       = ''An unknown error occurred during processing.''"
  by code_simp

text \<open>
  C3, as amended. When the render call of iteration \<open>i\<close> rejects after the calls before it
  fulfilled with \<open>imgs\<close>: the run ends with exactly these \<open>i\<close> images, each with its
  prompt, in order (nothing is rolled back); the error field receives the classified
  message, which is empty only for an \<open>Error\<close> with an empty message; the status is
  \<open>Failed\<close> and loading is cleared; and the rejected call is the last render call, with
  one pause of 1000 ms before each call but the first.
\<close>

theorem render_failure:
  assumes "payload u = Some b64"
    and "promptsResult ad = Returns (Some ps)" and "3 \<le> length ps"
    and "i < 3" and "length imgs = i"
    and "\<forall>j<i. imageResult ad j = Returns (imgs ! j)"
    and "imageResult ad i = Throws e"
  shows "generatedImages (replay s (handleImageUpload (Some u) ad s))
           = map (\<lambda>(a, p). \<lparr>src = a, prompt = p\<rparr>) (zip imgs ps)
         \<and> length (generatedImages (replay s (handleImageUpload (Some u) ad s))) = i
         \<and> error (replay s (handleImageUpload (Some u) ad s))
             = (if quota_signal e then quota_text else error_text e)
         \<and> (error (replay s (handleImageUpload (Some u) ad s)) = [] \<longleftrightarrow> e = JsError [])
         \<and> status (replay s (handleImageUpload (Some u) ad s)) = ''Failed''
         \<and> \<not> isLoading (replay s (handleImageUpload (Some u) ad s))
         \<and> schedule (handleImageUpload (Some u) ad s)
             = take (2 * i + 1) [Render, Pause 1000, Render, Pause 1000, Render]"
proof -
  from \<open>3 \<le> length ps\<close> obtain p0 p1 p2 rest where ps: "ps = p0 # p1 # p2 # rest"
    by (cases ps; cases "tl ps"; cases "tl (tl ps)") auto
  from \<open>i < 3\<close> consider "i = 0" | "i = 1" | "i = 2" by linarith
  then show ?thesis
  proof cases
    case 1
    with assms have "imgs = []" by simp
    with 1 assms(1,2,3,7) show ?thesis
      by (cases rule: try_log_cases[of ad b64 "fileType u" "isObjectRotationOnly s"])
         (simp_all add: upload_log resetState_log_def head_log_def catch_log_def
            stored_error_empty_iff)
  next
    case 2
    with assms obtain x where imgs: "imgs = [x]" by (cases imgs) auto
    from assms(6) 2 imgs have r0: "imageResult ad 0 = Returns x" by simp
    from 2 imgs r0 ps assms(1,2,3,7) show ?thesis
      by (cases rule: try_log_cases[of ad b64 "fileType u" "isObjectRotationOnly s"])
         (simp_all add: upload_log resetState_log_def head_log_def catch_log_def
            stored_error_empty_iff)
  next
    case 3
    with assms obtain x y where imgs: "imgs = [x, y]"
      by (cases imgs; cases "tl imgs") auto
    from assms(6) 3 imgs have r0: "imageResult ad 0 = Returns x"
      by (metis nth_Cons_0 zero_less_numeral)
    from assms(6) 3 imgs have r1: "imageResult ad 1 = Returns y"
      by (metis One_nat_def nth_Cons_0 nth_Cons_Suc one_less_numeral_iff semiring_norm(76))
    from 3 imgs r0 r1 ps assms(1,2,3,7) show ?thesis
      by (cases rule: try_log_cases[of ad b64 "fileType u" "isObjectRotationOnly s"])
         (simp_all add: upload_log resetState_log_def head_log_def catch_log_def
            stored_error_empty_iff)
  qed
qed

theorem render_failure_witness:
  "generatedImages
     (replay initialState (handleImageUpload (Some png_file) quota_adapter initialState))
     = [\<lparr>src = ''data:image/png;base64,BBBB'', prompt = ''low angle''\<rparr>]
   \<and> schedule (handleImageUpload (Some png_file) quota_adapter initialState)
     = [Render, Pause 1000, Render]"
proof -
  have h1: "payload png_file = Some ''AAAA''" by (simp add: png_file_def)
  have h2: "promptsResult quota_adapter
              = Returns (Some [''low angle'', ''high angle'', ''dutch tilt''])"
    by (simp add: quota_adapter_def)
  have h3: "3 \<le> length [''low angle'', ''high angle'', ''dutch tilt'']" by simp
  have h4: "(1::nat) < 3" by simp
  have h5: "length [''data:image/png;base64,BBBB''] = (1::nat)" by simp
  have h6: "\<forall>j<1::nat. imageResult quota_adapter j
              = Returns ([''data:image/png;base64,BBBB''] ! j)"
    by (simp add: quota_adapter_def)
  have h7: "imageResult quota_adapter 1 = Throws (JsError ''got status: 429 RESOURCE_EXHAUSTED'')"
    by (simp add: quota_adapter_def)
  from render_failure[OF h1 h2 h3 h4 h5 h6 h7, of initialState] show ?thesis
    by simp
qed

text \<open>
  C3 as stated fails: a render call that rejects with an \<open>Error\<close> whose message is empty
  leaves the error field empty, which the component reads as no error.
\<close>

theorem empty_message_counterexample:
  "imageResult silent_adapter 0 = Throws (JsError [])
   \<and> error (replay initialState (handleImageUpload (Some png_file) silent_adapter initialState))
       = []"
  by code_simp

section \<open>Validation of the prompts\<close>

text \<open>
  C2, as amended. \<open>getRotationPrompts\<close> returns prompts only for a reply whose \<open>prompts\<close>
  array has exactly three entries, and returns that array as it is, neither truncated
  nor padded; the entries themselves are not inspected. When the component receives no
  prompts or fewer than three, the run makes no render call, leaves \<open>generatedImages\<close>
  empty and fails with the message that the rotation angles could not be determined.
  With the shipped service a reply of any other length than three is refused by
  \<open>getRotationPrompts\<close> itself, with its own message, before any render call.
\<close>

theorem prompt_validation:
  assumes "payload u = Some b64"
  shows "(\<forall>ps. getRotationPrompts r = Returns ps
            \<longrightarrow> r = Returns (Json (PromptsArray ps)) \<and> length ps = 3)
       \<and> (promptsResult ad = Returns None
            \<or> (\<exists>ps. promptsResult ad = Returns (Some ps) \<and> length ps < 3)
          \<longrightarrow> schedule (handleImageUpload (Some u) ad s) = []
            \<and> generatedImages (replay s (handleImageUpload (Some u) ad s)) = []
            \<and> error (replay s (handleImageUpload (Some u) ad s))
                = ''Could not determine rotation angles. Please try another image.''
            \<and> status (replay s (handleImageUpload (Some u) ad s)) = ''Failed''
            \<and> \<not> isLoading (replay s (handleImageUpload (Some u) ad s)))
       \<and> (\<forall>ps. promptsResponse g = Returns (Json (PromptsArray ps)) \<and> length ps \<noteq> 3
            \<longrightarrow> schedule (handleImageUpload (Some u) (geminiService g) s) = []
              \<and> generatedImages (replay s (handleImageUpload (Some u) (geminiService g) s)) = []
              \<and> error (replay s (handleImageUpload (Some u) (geminiService g) s))
                  = ''Could not get valid rotation prompts from the AI. The response was malformed.'')"
proof (intro conjI allI impI)
  fix ps assume "getRotationPrompts r = Returns ps"
  then show "r = Returns (Json (PromptsArray ps))"
    by (cases r rule: getRotationPrompts.cases) (auto split: if_splits)
next
  fix ps assume "getRotationPrompts r = Returns ps"
  then show "length ps = 3"
    by (cases r rule: getRotationPrompts.cases) (auto split: if_splits)
next
  assume short: "promptsResult ad = Returns None
      \<or> (\<exists>ps. promptsResult ad = Returns (Some ps) \<and> length ps < 3)"
  have t: "try_log ad b64 (fileType u) (isObjectRotationOnly s)
             = (head_log b64 (fileType u) (isObjectRotationOnly s) True,
                Some (JsError no_angles_text))"
    using short
    by (cases rule: try_log_cases[of ad b64 "fileType u" "isObjectRotationOnly s"]) auto
  show "schedule (handleImageUpload (Some u) ad s) = []"
    using assms t by (simp add: upload_log resetState_log_def head_log_def catch_log_def)
  show "generatedImages (replay s (handleImageUpload (Some u) ad s)) = []"
    using assms t by (simp add: upload_log resetState_log_def head_log_def catch_log_def)
  show "error (replay s (handleImageUpload (Some u) ad s))
          = ''Could not determine rotation angles. Please try another image.''"
    using assms t no_angles_no_quota
    by (simp add: upload_log resetState_log_def head_log_def catch_log_def)
       (simp add: no_angles_text_def)
  show "status (replay s (handleImageUpload (Some u) ad s)) = ''Failed''"
    using assms t by (simp add: upload_log resetState_log_def head_log_def catch_log_def)
  show "\<not> isLoading (replay s (handleImageUpload (Some u) ad s))"
    using assms t by (simp add: upload_log resetState_log_def head_log_def catch_log_def)
next
  fix ps assume a: "promptsResponse g = Returns (Json (PromptsArray ps)) \<and> length ps \<noteq> 3"
  then have pr: "promptsResult (geminiService g) = Throws (JsError malformed_text)"
    by (simp add: geminiService_def)
  have t: "try_log (geminiService g) b64 (fileType u) (isObjectRotationOnly s)
             = (head_log b64 (fileType u) (isObjectRotationOnly s) False,
                Some (JsError malformed_text))"
    using pr by (simp add: try_log_def head_log_def)
  show "schedule (handleImageUpload (Some u) (geminiService g) s) = []"
    using assms t by (simp add: upload_log resetState_log_def head_log_def catch_log_def)
  show "generatedImages (replay s (handleImageUpload (Some u) (geminiService g) s)) = []"
    using assms t by (simp add: upload_log resetState_log_def head_log_def catch_log_def)
  show "error (replay s (handleImageUpload (Some u) (geminiService g) s))
          = ''Could not get valid rotation prompts from the AI. The response was malformed.''"
    using assms t malformed_no_quota
    by (simp add: upload_log resetState_log_def head_log_def catch_log_def)
       (simp add: malformed_text_def)
qed

theorem prompt_validation_witness:
  "error (replay initialState (handleImageUpload (Some png_file) two_prompts_adapter initialState))
     = ''Could not determine rotation angles. Please try another image.''
   \<and> generatedImages
       (replay initialState (handleImageUpload (Some png_file) two_prompts_adapter initialState))
     = []
   \<and> schedule (handleImageUpload (Some png_file) two_prompts_adapter initialState) = []"
proof -
  have h1: "payload png_file = Some ''AAAA''" by (simp add: png_file_def)
  have h2: "promptsResult two_prompts_adapter = Returns None
      \<or> (\<exists>ps. promptsResult two_prompts_adapter = Returns (Some ps) \<and> length ps < 3)"
    by (simp add: two_prompts_adapter_def)
  from prompt_validation[OF h1, of _ two_prompts_adapter initialState] h2 show ?thesis
    by blast
qed

text \<open>
  C2 as stated fails: three empty strings pass the validation and are rendered.
\<close>

theorem blank_prompts_counterexample:
  "getRotationPrompts (promptsResponse blank_prompts_gemini) = Returns [[], [], []]
   \<and> generatedImages
       (replay initialState
          (handleImageUpload (Some png_file) (geminiService blank_prompts_gemini) initialState))
     = [\<lparr>src = ''data:image/png;base64,BBBB'', prompt = []\<rparr>,
        \<lparr>src = ''data:image/png;base64,BBBB'', prompt = []\<rparr>,
        \<lparr>src = ''data:image/png;base64,BBBB'', prompt = []\<rparr>]
   \<and> error
       (replay initialState
          (handleImageUpload (Some png_file) (geminiService blank_prompts_gemini) initialState))
     = []"
  by code_simp

section \<open>The pace of the render calls\<close>

text \<open>
  C5. In every run the render calls and pauses occur in the order render, pause of
  1000 ms, render, pause of 1000 ms, render, cut short where the run fails: calls are
  issued one after the other, a pause stands between any two successive render calls,
  and none follows the third. On any clock on which a timer of 1000 ms takes at least
  1000 ms, each render call is therefore issued at least 1000 ms after the previous one
  settled. A run that ends with three images has made all five steps.
\<close>

theorem render_calls_spaced:
  "prefix (schedule (handleImageUpload (Some u) ad s))
     [Render, Pause 1000, Render, Pause 1000, Render]
   \<and> successively spaced (render_times d k t (handleImageUpload (Some u) ad s))
   \<and> (length (generatedImages (replay s (handleImageUpload (Some u) ad s))) = 3
        \<longrightarrow> schedule (handleImageUpload (Some u) ad s)
              = [Render, Pause 1000, Render, Pause 1000, Render])"
proof (cases "payload u")
  case None
  then show ?thesis
    by (simp add: handleImageUpload_def resetState_log_def)
next
  case (Some b64)
  show ?thesis
    by (cases rule: try_log_cases[of ad b64 "fileType u" "isObjectRotationOnly s"])
       (simp_all add: Some upload_log resetState_log_def head_log_def catch_log_def)
qed

text \<open>A complete run on a clock where every effect takes 7 ms.\<close>

theorem render_calls_spaced_witness:
  "schedule (handleImageUpload (Some png_file) good_adapter initialState)
     = [Render, Pause 1000, Render, Pause 1000, Render]
   \<and> render_times (\<lambda>k. 7) 0 0 (handleImageUpload (Some png_file) good_adapter initialState)
     = [(84, 91), (1112, 1119), (2140, 2147)]"
proof -
  have h: "length (generatedImages
      (replay initialState (handleImageUpload (Some png_file) good_adapter initialState))) = 3"
    by code_simp
  have t: "render_times (\<lambda>k. 7) 0 0 (handleImageUpload (Some png_file) good_adapter initialState)
     = [(84, 91), (1112, 1119), (2140, 2147)]"
    by code_simp
  from render_calls_spaced[of png_file good_adapter initialState] h t show ?thesis
    by blast
qed

section \<open>The entries of the archive\<close>

lemma export_entries_state:
  assumes "originalImage st = Some url" and "url \<noteq> []"
    and "generatedImages st = [g1, g2, g3]"
    and "jszipLoaded br" and "generateAsyncOk br"
    and "fetchBlob br url = Some b0"
    and "fetchBlob br (src g1) = Some b1" and "fetchBlob br (src g2) = Some b2"
    and "fetchBlob br (src g3) = Some b3"
  shows "snd (handleDownloadZip br st)
           = Some [(''original.png'', b0), (''generated_1.png'', b1),
                   (''generated_2.png'', b2), (''generated_3.png'', b3)]"
  using assms
  by (simp add: handleDownloadZip_def Let_def string_of_nat_small digit_def)

text \<open>
  C7. After a run in which the three render calls fulfilled, the state is finished, and
  an export in which the four fetches and the compression succeed offers an archive of
  exactly four entries, in this order: \<open>original.png\<close> holding the original image, then
  \<open>generated_1.png\<close>, \<open>generated_2.png\<close> and \<open>generated_3.png\<close> holding the generated
  images in the order of their generation.
\<close>

theorem export_entries:
  assumes "payload u = Some b64"
    and "promptsResult ad = Returns (Some ps)" and "3 \<le> length ps"
    and "imageResult ad 0 = Returns a0" and "imageResult ad 1 = Returns a1"
    and "imageResult ad 2 = Returns a2"
    and "jszipLoaded br" and "generateAsyncOk br"
    and "fetchBlob br (''data:'' @ fileType u @ '';base64,'' @ b64) = Some b0"
    and "fetchBlob br a0 = Some b1" and "fetchBlob br a1 = Some b2"
    and "fetchBlob br a2 = Some b3"
  shows "isFinished (replay s (handleImageUpload (Some u) ad s))
         \<and> snd (handleDownloadZip br (replay s (handleImageUpload (Some u) ad s)))
           = Some [(''original.png'', b0), (''generated_1.png'', b1),
                   (''generated_2.png'', b2), (''generated_3.png'', b3)]"
proof -
  let ?st = "replay s (handleImageUpload (Some u) ad s)"
  have st: "originalImage ?st = Some (''data:'' @ fileType u @ '';base64,'' @ b64)
      \<and> generatedImages ?st
          = [\<lparr>src = a0, prompt = ps ! 0\<rparr>, \<lparr>src = a1, prompt = ps ! 1\<rparr>,
             \<lparr>src = a2, prompt = ps ! 2\<rparr>]
      \<and> \<not> isLoading ?st"
    using assms(1-6)
    by (cases rule: try_log_cases[of ad b64 "fileType u" "isObjectRotationOnly s"])
       (simp_all add: upload_log resetState_log_def head_log_def catch_log_def)
  then have "isFinished ?st" by (simp add: isFinished_def)
  moreover have "snd (handleDownloadZip br ?st)
           = Some [(''original.png'', b0), (''generated_1.png'', b1),
                   (''generated_2.png'', b2), (''generated_3.png'', b3)]"
    using st assms(7-12) by (intro export_entries_state) auto
  ultimately show ?thesis by simp
qed

theorem export_entries_witness:
  "snd (handleDownloadZip good_browser
          (replay initialState (handleImageUpload (Some png_file) good_adapter initialState)))
     = Some [(''original.png'', ''data:image/png;base64,AAAA''),
             (''generated_1.png'', ''data:image/png;base64,BBBB''),
             (''generated_2.png'', ''data:image/png;base64,BBBB''),
             (''generated_3.png'', ''data:image/png;base64,BBBB'')]"
proof -
  have h1: "payload png_file = Some ''AAAA''" by (simp add: png_file_def)
  have h2: "promptsResult good_adapter
              = Returns (Some [''low angle'', ''high angle'', ''dutch tilt''])"
    by (simp add: good_adapter_def)
  have h3: "3 \<le> length [''low angle'', ''high angle'', ''dutch tilt'']" by simp
  have h4: "imageResult good_adapter 0 = Returns ''data:image/png;base64,BBBB''"
    and h5: "imageResult good_adapter 1 = Returns ''data:image/png;base64,BBBB''"
    and h6: "imageResult good_adapter 2 = Returns ''data:image/png;base64,BBBB''"
    by (simp_all add: good_adapter_def)
  have h7: "jszipLoaded good_browser" and h8: "generateAsyncOk good_browser"
    by (simp_all add: good_browser_def)
  have h9: "fetchBlob good_browser (''data:'' @ fileType png_file @ '';base64,'' @ ''AAAA'')
              = Some ''data:image/png;base64,AAAA''"
    by (simp add: good_browser_def png_file_def)
  have h10: "fetchBlob good_browser ''data:image/png;base64,BBBB''
               = Some ''data:image/png;base64,BBBB''"
    by (simp add: good_browser_def)
  from export_entries[OF h1 h2 h3 h4 h5 h6 h7 h8 h9 h10 h10 h10, of initialState]
  show ?thesis by blast
qed

section \<open>Finished states\<close>

lemma replay_awaits: "list_all is_await log \<Longrightarrow> replay s log = s"
  by (induction log arbitrary: s) (auto elim: is_await.elims)

lemma zip_generated_awaits: "list_all is_await (fst (zip_generated br i gs z))"
  by (induction gs arbitrary: i z) (auto split: option.splits simp: Let_def)

lemma replay_zip_generated: "replay s (fst (zip_generated br i gs z) @ log) = replay s log"
  by (simp add: replay_append replay_awaits zip_generated_awaits)

lemma download_frame:
  "originalImage (replay s (fst (handleDownloadZip br s))) = originalImage s
   \<and> generatedImages (replay s (fst (handleDownloadZip br s))) = generatedImages s
   \<and> isObjectRotationOnly (replay s (fst (handleDownloadZip br s))) = isObjectRotationOnly s
   \<and> isLoading (replay s (fst (handleDownloadZip br s))) = isLoading s
   \<and> (error (replay s (fst (handleDownloadZip br s))) = error s
        \<or> error (replay s (fst (handleDownloadZip br s))) = ''Failed to create ZIP file.'')"
  by (simp add: handleDownloadZip_def Let_def zip_failed_log_def replay_zip_generated
        split: option.splits)

lemma upload_final_finished:
  "isFinished (replay s (handleImageUpload (Some u) ad s))
     \<longleftrightarrow> \<not> isLoading (replay s (handleImageUpload (Some u) ad s))
         \<and> error (replay s (handleImageUpload (Some u) ad s)) = []
         \<and> length (generatedImages (replay s (handleImageUpload (Some u) ad s))) = 3"
proof (cases "payload u")
  case None
  then show ?thesis
    by (simp add: handleImageUpload_def resetState_log_def isFinished_def)
next
  case (Some b64)
  show ?thesis
    by (cases rule: try_log_cases[of ad b64 "fileType u" "isObjectRotationOnly s"])
       (simp_all add: Some upload_log resetState_log_def head_log_def catch_log_def
          isFinished_def)
qed

lemma upload_observed_finished:
  "list_all (\<lambda>(st, k). isFinished st
       \<longleftrightarrow> \<not> isLoading st \<and> error st = [] \<and> length (generatedImages st) = 3)
     (observe s 0 (handleImageUpload (Some u) ad s))"
proof (cases "payload u")
  case None
  then show ?thesis
    by (simp add: handleImageUpload_def resetState_log_def isFinished_def)
next
  case (Some b64)
  show ?thesis
    by (cases rule: try_log_cases[of ad b64 "fileType u" "isObjectRotationOnly s"])
       (simp_all add: Some upload_log resetState_log_def head_log_def catch_log_def
          isFinished_def)
qed

lemma reachable_finished_error:
  "reachable s \<Longrightarrow> isFinished s \<Longrightarrow> error s = [] \<or> error s = ''Failed to create ZIP file.''"
proof (induction rule: reachable.induct)
  case initial
  then show ?case by (simp add: initialState_def)
next
  case (upload s f ad)
  show ?case
  proof (cases f)
    case None
    with upload show ?thesis by (simp add: handleImageUpload_def)
  next
    case (Some u)
    with upload.prems upload_final_finished[of s u ad] show ?thesis by simp
  qed
next
  case (toggle s b)
  then show ?case by (simp add: isFinished_def)
next
  case (download s br)
  from download.prems download_frame[of s br] have "isFinished s"
    by (simp add: isFinished_def)
  with download.IH download_frame[of s br] show ?case by auto
next
  case (reset s)
  then show ?case by (simp add: resetState_def resetState_log_def)
qed

lemma reachable_finished_state: "reachable finished_state"
  unfolding finished_state_def
  by (rule reachable.upload[OF reachable.initial]) (simp_all add: initialState_def)

lemma finished_state_isFinished: "isFinished finished_state"
  by code_simp

lemma reachable_export_failed_state: "reachable export_failed_state"
  unfolding export_failed_state_def
  by (rule reachable.download[OF reachable_finished_state finished_state_isFinished])

lemma export_failed_state_isFinished: "isFinished export_failed_state"
  by code_simp

lemma reachable_export_retried_state: "reachable export_retried_state"
  unfolding export_retried_state_def
  by (rule reachable.download[OF reachable_export_failed_state export_failed_state_isFinished])

text \<open>
  C1, as amended. A state is finished exactly when it is not loading and holds three
  generated images; the error field is not consulted. In every state observed during a
  run or at its end this agrees with the three conditions of the claim (not loading, no
  error, three images), and in every reachable finished state the error field is empty
  or holds the message of a failed export.
\<close>

theorem finished_iff:
  assumes "reachable s"
  shows "(isFinished s \<longleftrightarrow> \<not> isLoading s \<and> length (generatedImages s) = 3)
       \<and> (isFinished s \<longrightarrow> error s = [] \<or> error s = ''Failed to create ZIP file.'')
       \<and> list_all (\<lambda>(st, k). isFinished st
              \<longleftrightarrow> \<not> isLoading st \<and> error st = [] \<and> length (generatedImages st) = 3)
            (observe s 0 (handleImageUpload (Some u) ad s))"
  using assms reachable_finished_error[of s] upload_observed_finished[of s u ad]
  by (simp add: isFinished_def)

theorem finished_iff_witness:
  "reachable finished_state \<and> isFinished finished_state \<and> error finished_state = []"
proof -
  have e: "error finished_state \<noteq> ''Failed to create ZIP file.''" by code_simp
  from finished_iff[OF reachable_finished_state] finished_state_isFinished e
  have "error finished_state = []" by blast
  with reachable_finished_state finished_state_isFinished show ?thesis by blast
qed

text \<open>
  C1 as stated fails: after a complete run and a failed export the state is finished,
  so that the download and reset buttons stay available, while the error field is set.
\<close>

theorem finished_with_error_counterexample:
  "reachable export_failed_state \<and> isFinished export_failed_state
   \<and> \<not> (\<not> isLoading export_failed_state \<and> error export_failed_state = []
          \<and> length (generatedImages export_failed_state) = 3)"
proof -
  have "error export_failed_state \<noteq> []" by code_simp
  with reachable_export_failed_state export_failed_state_isFinished show ?thesis by blast
qed

section \<open>Error and status\<close>

text \<open>
  At the end of a run an error comes with the status \<open>Failed\<close>, or with the empty status
  when the file could not be read.
\<close>

lemma run_error_replaces_status:
  "error (replay s (handleImageUpload (Some u) ad s)) \<noteq> [] \<Longrightarrow>
   status (replay s (handleImageUpload (Some u) ad s)) = ''Failed''
   \<or> status (replay s (handleImageUpload (Some u) ad s)) = []"
proof (cases "payload u")
  case None
  then show ?thesis
    by (simp add: handleImageUpload_def resetState_log_def)
next
  case (Some b64)
  assume "error (replay s (handleImageUpload (Some u) ad s)) \<noteq> []"
  then show ?thesis
    by (cases rule: try_log_cases[of ad b64 "fileType u" "isObjectRotationOnly s"])
       (simp_all add: Some upload_log resetState_log_def head_log_def catch_log_def)
qed

text \<open>
  C4. The claim does not hold of the code. \<open>handleDownloadZip\<close> never clears the error
  field: after a complete run, a failed export and a second export that succeeds, the
  state at rest holds the error of the first export together with the status of the
  second, \<open>Download complete!\<close>.
\<close>

theorem stale_error_after_retry:
  "reachable export_retried_state
   \<and> error export_retried_state = ''Failed to create ZIP file.''
   \<and> status export_retried_state = ''Download complete!''"
proof -
  have "error export_retried_state = ''Failed to create ZIP file.''" by code_simp
  moreover have "status export_retried_state = ''Download complete!''" by code_simp
  ultimately show ?thesis using reachable_export_retried_state by blast
qed

end
